theory Spec2Isabelle
  imports Complex_Main "HOL-Library.Monad_Syntax" "HOL-Library.Sublist"
begin

section \<open>JavaScript numbers and strings\<close>

text \<open>
  A JavaScript Number is modelled as an exact rational or one of the three special values
  that division produces. Rounding of the binary64 format and the sign of zero are left
  out: every zero is the positive zero. In the code below a zero divisor is either a canvas
  width (a non-negative integer) or the result of subtracting equal finite values, and both
  are positive zeros in JavaScript as well.
\<close>

datatype jsnum = Num rat | PosInf | NegInf | NaN

fun js_neg :: "jsnum \<Rightarrow> jsnum" where
  "js_neg (Num a) = Num (- a)"
| "js_neg PosInf = NegInf"
| "js_neg NegInf = PosInf"
| "js_neg NaN = NaN"

fun js_add :: "jsnum \<Rightarrow> jsnum \<Rightarrow> jsnum" where
  "js_add (Num a) (Num b) = Num (a + b)"
| "js_add NaN _ = NaN"
| "js_add _ NaN = NaN"
| "js_add PosInf NegInf = NaN"
| "js_add NegInf PosInf = NaN"
| "js_add PosInf _ = PosInf"
| "js_add _ PosInf = PosInf"
| "js_add NegInf _ = NegInf"
| "js_add _ NegInf = NegInf"

definition js_sub :: "jsnum \<Rightarrow> jsnum \<Rightarrow> jsnum" where
  "js_sub a b = js_add a (js_neg b)"

text \<open>The infinity with the sign of a non-zero rational.\<close>

definition signed_inf :: "rat \<Rightarrow> jsnum" where
  "signed_inf a = (if 0 < a then PosInf else NegInf)"

fun js_mul :: "jsnum \<Rightarrow> jsnum \<Rightarrow> jsnum" where
  "js_mul (Num a) (Num b) = Num (a * b)"
| "js_mul NaN _ = NaN"
| "js_mul _ NaN = NaN"
| "js_mul (Num a) PosInf = (if a = 0 then NaN else signed_inf a)"
| "js_mul (Num a) NegInf = (if a = 0 then NaN else signed_inf (- a))"
| "js_mul PosInf (Num b) = (if b = 0 then NaN else signed_inf b)"
| "js_mul NegInf (Num b) = (if b = 0 then NaN else signed_inf (- b))"
| "js_mul PosInf PosInf = PosInf"
| "js_mul NegInf NegInf = PosInf"
| "js_mul PosInf NegInf = NegInf"
| "js_mul NegInf PosInf = NegInf"

fun js_div :: "jsnum \<Rightarrow> jsnum \<Rightarrow> jsnum" where
  "js_div (Num a) (Num b) =
     (if b = 0 then (if a = 0 then NaN else signed_inf a) else Num (a / b))"
| "js_div NaN _ = NaN"
| "js_div _ NaN = NaN"
| "js_div (Num a) PosInf = Num 0"
| "js_div (Num a) NegInf = Num 0"
| "js_div PosInf (Num b) = (if 0 \<le> b then PosInf else NegInf)"
| "js_div NegInf (Num b) = (if 0 \<le> b then NegInf else PosInf)"
| "js_div PosInf PosInf = NaN"
| "js_div PosInf NegInf = NaN"
| "js_div NegInf PosInf = NaN"
| "js_div NegInf NegInf = NaN"

text \<open>The comparisons \<open><\<close>, \<open><=\<close>, \<open>>\<close> and \<open>===\<close>: all false on NaN.\<close>

fun js_lt :: "jsnum \<Rightarrow> jsnum \<Rightarrow> bool" where
  "js_lt (Num a) (Num b) = (a < b)"
| "js_lt NaN _ = False"
| "js_lt _ NaN = False"
| "js_lt _ NegInf = False"
| "js_lt NegInf _ = True"
| "js_lt PosInf _ = False"
| "js_lt (Num a) PosInf = True"

fun js_le :: "jsnum \<Rightarrow> jsnum \<Rightarrow> bool" where
  "js_le (Num a) (Num b) = (a \<le> b)"
| "js_le NaN _ = False"
| "js_le _ NaN = False"
| "js_le NegInf _ = True"
| "js_le _ PosInf = True"
| "js_le PosInf _ = False"
| "js_le (Num a) NegInf = False"

definition js_gt :: "jsnum \<Rightarrow> jsnum \<Rightarrow> bool" where
  "js_gt a b = js_lt b a"

definition js_eq :: "jsnum \<Rightarrow> jsnum \<Rightarrow> bool" where
  "js_eq a b = (a \<noteq> NaN \<and> a = b)"

definition Math_max :: "jsnum \<Rightarrow> jsnum \<Rightarrow> jsnum" where
  "Math_max a b = (if a = NaN \<or> b = NaN then NaN else if js_lt a b then b else a)"

definition Math_min :: "jsnum \<Rightarrow> jsnum \<Rightarrow> jsnum" where
  "Math_min a b = (if a = NaN \<or> b = NaN then NaN else if js_lt b a then b else a)"

fun Math_ceil :: "jsnum \<Rightarrow> jsnum" where
  "Math_ceil (Num a) = Num (of_int \<lceil>a\<rceil>)"
| "Math_ceil x = x"

text \<open>
  A JavaScript string is its list of UTF-16 code units; \<open>js\<close> embeds an ASCII literal.
\<close>

type_synonym jsstring = "nat list"

definition js :: "string \<Rightarrow> jsstring" where
  "js s = map of_char s"

fun digits :: "nat \<Rightarrow> jsstring" where
  "digits n = (if n < 10 then [48 + n] else digits (n div 10) @ [48 + n mod 10])"

definition int_toString :: "int \<Rightarrow> jsstring" where
  "int_toString i = (if i < 0 then js ''-'' @ digits (nat (- i)) else digits (nat i))"

text \<open>
  Number-to-string conversion inside a template literal. Only the values a page number or a
  page count can take are covered (integers and the special values); the code applies it
  to nothing else, and for a non-integer the result here is the empty string, which is not
  what JavaScript prints.
\<close>

fun js_toString :: "jsnum \<Rightarrow> jsstring" where
  "js_toString (Num a) = (if a = of_int \<lfloor>a\<rfloor> then int_toString \<lfloor>a\<rfloor> else [])"
| "js_toString PosInf = js ''Infinity''"
| "js_toString NegInf = js ''-Infinity''"
| "js_toString NaN = js ''NaN''"

section \<open>The rendered document and the export environment\<close>

text \<open>
  The header element of the rendered document, with the text of its descendant
  \<open>#comunicado-pagina-actual\<close> when it has one.
\<close>

datatype header = HeaderNode (pagina_actual: "jsstring option")

text \<open>The clones that the export appends to its off-screen containers.\<close>

datatype element = HeaderClone header | TitleClone | InfoClone | BodyClone | FooterClone

record canvas =
  width :: nat
  height :: nat

text \<open>
  What exportComunicadoPDF reads from its surroundings: whether jsPDF is there after the
  loading attempt, whether \<open>#comunicado-documento\<close> exists with content after
  the rendering attempt, the results of the \<open>querySelector\<close> calls, the page size
  that jsPDF reports for A4 in millimetres, and the canvas that html2canvas returns for
  a container with given children.
\<close>

record env =
  jsPDF :: bool
  documentoElement :: bool
  documentoWrapper :: bool
  headerElement :: "header option"
  titleElement :: bool
  infoElement :: bool
  bodyElement :: bool
  footerElement :: bool
  pageWidth :: rat
  pageHeight :: rat
  html2canvas :: "element list \<Rightarrow> canvas"

text \<open>A record of the store; an absent field (\<open>undefined\<close>) is \<open>None\<close>.\<close>

record comunicado =
  codigo :: "jsstring option"
  tipo :: "jsstring option"
  departamento :: "jsstring option"
  titulo :: "jsstring option"
  contenido :: "jsstring option"

datatype error =
    JsPDFNotLoaded
  | DocumentNotRendered
  | WrapperNotFound
  | TypeError
  | JsPDFError

section \<open>The paginator of exportComunicadoPDF\<close>

definition margin :: jsnum where
  "margin = Num 10"

definition usableWidth :: "env \<Rightarrow> jsnum" where
  "usableWidth e = js_sub (Num (pageWidth e)) (js_mul margin (Num 2))"

definition usableHeight :: "env \<Rightarrow> jsnum" where
  "usableHeight e = js_sub (Num (pageHeight e)) (js_mul margin (Num 2))"

text \<open>The children of a header container; \<open>h\<close> is the header clone to append.\<close>

definition header_children :: "env \<Rightarrow> header option \<Rightarrow> element list" where
  "header_children e h =
     (case h of None \<Rightarrow> [] | Some n \<Rightarrow> [HeaderClone n])
     @ (if titleElement e then [TitleClone] else [])
     @ (if infoElement e then [InfoClone] else [])"

definition headerContainer :: "env \<Rightarrow> element list" where
  "headerContainer e = header_children e (headerElement e)"

definition bodyContainer :: "env \<Rightarrow> element list" where
  "bodyContainer e = (if bodyElement e then [BodyClone] else [])"

definition footerContainer :: "element list" where
  "footerContainer = [FooterClone]"

text \<open>\<open>(canvas.height * usableWidth) / canvas.width\<close>\<close>

definition heightMM :: "env \<Rightarrow> canvas \<Rightarrow> jsnum" where
  "heightMM e c =
     js_div (js_mul (Num (of_nat (height c))) (usableWidth e)) (Num (of_nat (width c)))"

definition headerHeightMM :: "env \<Rightarrow> jsnum" where
  "headerHeightMM e = heightMM e (html2canvas e (headerContainer e))"

definition bodyCanvas :: "env \<Rightarrow> canvas" where
  "bodyCanvas e = html2canvas e (bodyContainer e)"

definition bodyHeightMM :: "env \<Rightarrow> jsnum" where
  "bodyHeightMM e = heightMM e (bodyCanvas e)"

definition footerHeightMM :: "env \<Rightarrow> jsnum" where
  "footerHeightMM e =
     (if footerElement e then heightMM e (html2canvas e footerContainer) else Num 0)"

text \<open>
  \<open>const contentHeightPerPage = usableHeight - headerSpace - footerSpace\<close> with
  \<open>headerSpace = headerHeightMM + 5\<close> and \<open>footerSpace = footerHeightMM + 5\<close>.
\<close>

definition contentHeightPerPage :: "env \<Rightarrow> jsnum" where
  "contentHeightPerPage e =
     (let headerSpace = js_add (headerHeightMM e) (Num 5);
          footerSpace = js_add (footerHeightMM e) (Num 5)
      in js_sub (js_sub (usableHeight e) headerSpace) footerSpace)"

text \<open>
  \<open>const totalPages = Math.max(1, Math.ceil(bodyHeightMM / contentHeightPerPage))\<close>
\<close>

definition totalPages :: "env \<Rightarrow> jsnum" where
  "totalPages e =
     Math_max (Num 1) (Math_ceil (js_div (bodyHeightMM e) (contentHeightPerPage e)))"

text \<open>
  Image data handed to \<open>pdf.addImage\<close>: the raster of a container, or the part of
  the body canvas from \<open>sourceY\<close> of height \<open>sourceHeight\<close>.
\<close>

datatype imgdata = Raster "element list" | Crop jsnum jsnum

text \<open>\<open>pdf.addImage(data, 'JPEG', x, y, w, h)\<close>\<close>

datatype addImage = AddImage imgdata jsnum jsnum jsnum jsnum

text \<open>
  One iteration of the page loop: the page number, the containers handed to html2canvas
  during the iteration, the body interval of the page and the images put on the page.
\<close>

record page =
  pageNum :: int
  rasterized :: "element list list"
  contentStart :: jsnum
  contentEnd :: jsnum
  images :: "addImage list"

text \<open>The template literal \<open>`${pageNum} de ${totalPages}`\<close>.\<close>

definition pagina_text :: "int \<Rightarrow> jsnum \<Rightarrow> jsstring" where
  "pagina_text n tp = int_toString n @ js '' de '' @ js_toString tp"

text \<open>
  The header clone with the page counter rewritten; a header without the counter element
  stays as it is.
\<close>

definition headerClone :: "header \<Rightarrow> jsstring \<Rightarrow> header" where
  "headerClone h txt =
     (case pagina_actual h of None \<Rightarrow> h | Some old \<Rightarrow> HeaderNode (Some txt))"

definition headerContainerUpdated :: "env \<Rightarrow> int \<Rightarrow> element list" where
  "headerContainerUpdated e n =
     header_children e
       (map_option (\<lambda>h. headerClone h (pagina_text n (totalPages e))) (headerElement e))"

text \<open>The body of the loop \<open>for (let pageNum = 1; pageNum <= totalPages; pageNum++)\<close>.\<close>

definition render_page :: "env \<Rightarrow> int \<Rightarrow> jsnum \<Rightarrow> page" where
  "render_page e n bodyYPosition =
     (let yPos0 = margin;
          hdr = (if headerElement e \<noteq> None
                 then [AddImage (Raster (headerContainerUpdated e n)) margin yPos0
                         (usableWidth e) (headerHeightMM e)]
                 else []);
          yPos1 = js_add yPos0 (js_add (headerHeightMM e) (Num 5));
          cStart = bodyYPosition;
          cEnd = Math_min (js_add bodyYPosition (contentHeightPerPage e)) (bodyHeightMM e);
          contentHeightThisPage = js_sub cEnd cStart;
          sourceY = js_mul (js_div cStart (bodyHeightMM e)) (Num (of_nat (height (bodyCanvas e))));
          sourceHeight =
            js_mul (js_div contentHeightThisPage (bodyHeightMM e))
              (Num (of_nat (height (bodyCanvas e))));
          contentHeightMMThisPage =
            js_div (js_mul sourceHeight (usableWidth e)) (Num (of_nat (width (bodyCanvas e))));
          drawn = js_gt contentHeightThisPage (Num 0);
          bdy = (if drawn
                 then [AddImage (Crop sourceY sourceHeight) margin yPos1
                         (usableWidth e) contentHeightMMThisPage]
                 else []);
          yPos2 = (if drawn then js_add yPos1 contentHeightMMThisPage else yPos1);
          ftr = (if js_eq (Num (of_int n)) (totalPages e) \<and> footerElement e
                 then [AddImage (Raster footerContainer) margin (js_add yPos2 (Num 5))
                         (usableWidth e) (footerHeightMM e)]
                 else [])
      in \<lparr> pageNum = n,
           rasterized = (if headerElement e \<noteq> None then [headerContainerUpdated e n] else []),
           contentStart = cStart,
           contentEnd = cEnd,
           images = hdr @ bdy @ ftr \<rparr>)"

text \<open>
  The loop. It carries \<open>pageNum\<close> and \<open>bodyYPosition\<close>; with an infinite page count it
  never ends, and its value is then \<open>None\<close>.
\<close>

partial_function (option) pages_loop :: "env \<Rightarrow> int \<Rightarrow> jsnum \<Rightarrow> page list option" where
  "pages_loop e n bodyYPosition =
     (if js_le (Num (of_int n)) (totalPages e)
      then do {
        rest \<leftarrow> pages_loop e (n + 1) (contentEnd (render_page e n bodyYPosition));
        Some (render_page e n bodyYPosition # rest)
      }
      else Some [])"

text \<open>
  What a finished export has done: the html2canvas calls made before the page loop, the
  iterations of the loop, and the name passed to \<open>pdf.save\<close>. The document that jsPDF
  builds starts with one page; every iteration but the first adds a page.
\<close>

record export =
  captured :: "element list list"
  pages :: "page list"
  fileName :: jsstring

definition exportComunicadoPDF :: "env \<Rightarrow> comunicado \<Rightarrow> (error + export) option" where
  "exportComunicadoPDF e c =
     (if \<not> jsPDF e then Some (Inl JsPDFNotLoaded)
      else if \<not> documentoElement e then Some (Inl DocumentNotRendered)
      else if \<not> documentoWrapper e then Some (Inl WrapperNotFound)
      else do {
        ps \<leftarrow> pages_loop e 1 (Num 0);
        Some (Inr \<lparr> captured =
                      [headerContainer e, bodyContainer e]
                      @ (if footerElement e then [footerContainer] else []),
                    pages = ps,
                    fileName =
                      js ''Comunicado-''
                      @ (case codigo c of None \<Rightarrow> js ''sin-codigo''
                         | Some k \<Rightarrow> if k = [] then js ''sin-codigo'' else k)
                      @ js ''.pdf'' \<rparr>)
      })"

section \<open>The batch exporter\<close>

text \<open>A value inside a template literal: \<open>undefined\<close> prints as its name.\<close>

definition template_value :: "jsstring option \<Rightarrow> jsstring" where
  "template_value v = (case v of None \<Rightarrow> js ''undefined'' | Some s \<Rightarrow> s)"

text \<open>
  One iteration of the loop of exportComunicadosPDF in the export system. The call
  \<open>comunicado.tipo.toUpperCase()\<close> throws a TypeError on a record without \<open>tipo\<close>.
  The jsPDF calls that take the record's data (\<open>splitTextToSize\<close>, \<open>text\<close>,
  \<open>save\<close>) come after it; \<open>throws c\<close> says that one of them throws on \<open>c\<close>.
  An iteration that does not throw saves one file and gives its name.
\<close>

definition export_item :: "(comunicado \<Rightarrow> bool) \<Rightarrow> comunicado \<Rightarrow> error + jsstring" where
  "export_item throws c =
     (case tipo c of
        None \<Rightarrow> Inl TypeError
      | Some t \<Rightarrow>
          if throws c then Inl JsPDFError
          else Inr (js ''Comunicado-'' @ template_value (codigo c) @ js ''.pdf''))"

text \<open>
  The loop \<open>for (let index = 0; index < comunicados.length; index++)\<close>: the files saved
  so far are the state, and an exception leaves the loop with the files saved before it.
\<close>

fun export_items ::
  "(comunicado \<Rightarrow> bool) \<Rightarrow> jsstring list \<Rightarrow> comunicado list \<Rightarrow> jsstring list \<times> error option"
where
  "export_items throws saved [] = (saved, None)"
| "export_items throws saved (c # cs) =
     (case export_item throws c of
        Inl err \<Rightarrow> (saved, Some err)
      | Inr f \<Rightarrow> export_items throws (saved @ [f]) cs)"

definition exportComunicadosPDF ::
  "bool \<Rightarrow> (comunicado \<Rightarrow> bool) \<Rightarrow> comunicado list \<Rightarrow> jsstring list \<times> error option"
where
  "exportComunicadosPDF jsPDF_loaded throws comunicados =
     (if \<not> jsPDF_loaded then ([], Some JsPDFNotLoaded)
      else export_items throws [] comunicados)"

text \<open>\<open>showNotification(message, type)\<close>\<close>

datatype notification = Notification jsstring jsstring

record batch =
  saved :: "jsstring list"
  notifications :: "notification list"
  thrown :: "error option"

text \<open>
  \<open>App.prototype.exportComunicadosPDF\<close>, from the list that its filters leave. The call of
  the export system is not inside a \<open>try\<close>: an exception leaves the function.
\<close>

definition App_exportComunicadosPDF ::
  "bool \<Rightarrow> (comunicado \<Rightarrow> bool) \<Rightarrow> comunicado list \<Rightarrow> batch"
where
  "App_exportComunicadosPDF jsPDF_loaded throws comunicados =
     (if length comunicados = 0
      then \<lparr> saved = [],
             notifications =
               [Notification (js ''No hay comunicados para exportar'') (js ''info'')],
             thrown = None \<rparr>
      else (case exportComunicadosPDF jsPDF_loaded throws comunicados of
              (fs, Some err) \<Rightarrow> \<lparr> saved = fs, notifications = [], thrown = Some err \<rparr>
            | (fs, None) \<Rightarrow>
                \<lparr> saved = fs,
                  notifications =
                    [Notification
                       (digits (length comunicados) @ js '' comunicado(s) exportado(s) a PDF'')
                       (js ''success'')],
                  thrown = None \<rparr>))"

section \<open>The layout measurer\<close>

text \<open>The three properties that calcularPaginasComunicado reads from the wrapper.\<close>

record wrapper =
  offsetWidth :: nat
  scrollWidth :: nat
  scrollHeight :: nat

text \<open>\<open>a || b\<close> on numbers: zero is falsy.\<close>

definition js_or :: "nat \<Rightarrow> nat \<Rightarrow> nat" where
  "js_or a b = (if a \<noteq> 0 then a else b)"

definition wrapperWidth :: "wrapper \<Rightarrow> nat" where
  "wrapperWidth w = js_or (js_or (offsetWidth w) (scrollWidth w)) 800"

definition scaleFactor :: "wrapper \<Rightarrow> jsnum" where
  "scaleFactor w = js_div (Num 210) (Num (of_nat (wrapperWidth w)))"

text \<open>
  The argument is the result of \<open>document.querySelector\<close>; without a wrapper the function
  returns nothing.
\<close>

definition calcularPaginasComunicado :: "wrapper option \<Rightarrow> jsnum option" where
  "calcularPaginasComunicado q =
     (case q of
        None \<Rightarrow> None
      | Some w \<Rightarrow>
          (let contentHeight = Num (of_nat (scrollHeight w));
               A4_HEIGHT_MM = Num 297;
               contentHeightMM = js_mul contentHeight (scaleFactor w);
               marginMM = Num 20;
               usableHeightMM = js_sub A4_HEIGHT_MM marginMM
           in Some (Math_max (Num 1) (Math_ceil (js_div contentHeightMM usableHeightMM)))))"

section \<open>Lines, trimming and the content formatter\<close>

text \<open>
  The code units that \<open>trim\<close> removes and that \<open>\s\<close> matches: the white space and line
  terminators of ECMAScript.
\<close>

definition is_ws :: "nat \<Rightarrow> bool" where
  "is_ws c =
     (c \<in> {9, 10, 11, 12, 13, 32, 160, 5760, 8232, 8233, 8239, 8287, 12288, 65279}
      \<or> (8192 \<le> c \<and> c \<le> 8202))"

definition trim :: "jsstring \<Rightarrow> jsstring" where
  "trim s = rev (dropWhile is_ws (rev (dropWhile is_ws s)))"

text \<open>\<open>s.split(sep)\<close> for a separator of one code unit.\<close>

fun split :: "nat \<Rightarrow> jsstring \<Rightarrow> jsstring list" where
  "split sep [] = [[]]"
| "split sep (c # cs) =
     (if c = sep then [] # split sep cs
      else (case split sep cs of [] \<Rightarrow> [[c]] | l # ls \<Rightarrow> (c # l) # ls))"

text \<open>\<open>content.split('\n').filter(p => p.trim())\<close>\<close>

definition paragraphs_of :: "jsstring \<Rightarrow> jsstring list" where
  "paragraphs_of content = filter (\<lambda>p. trim p \<noteq> []) (split 10 content)"

text \<open>
  The character class of the title pattern: \<open>A-Z\<close>, the six letters U+00C1, U+00C9, U+00CD,
  U+00D3, U+00DA and U+00D1 (the capital vowels with acute accent and the capital N with
  tilde), and \<open>\s\<close>.
\<close>

definition title_class :: "nat \<Rightarrow> bool" where
  "title_class c = ((65 \<le> c \<and> c \<le> 90) \<or> c \<in> {193, 201, 205, 211, 218, 209} \<or> is_ws c)"

text \<open>The title pattern, anchored at both ends: one or more units of the class.\<close>

definition match_title :: "jsstring \<Rightarrow> bool" where
  "match_title t = (t \<noteq> [] \<and> list_all title_class t)"

text \<open>The second pattern: \<open>ARTICULO\<close> at the start, without or with U+00CD for the I.\<close>

definition match_articulo :: "jsstring \<Rightarrow> bool" where
  "match_articulo t =
     (prefix (js ''ARTICULO'') t \<or> prefix (js ''ART'' @ [205] @ js ''CULO'') t)"

text \<open>\<open>/^[a-z]\)\./\<close>\<close>

definition match_list_item :: "jsstring \<Rightarrow> bool" where
  "match_list_item t =
     (case t of a # b # c # rest \<Rightarrow> 97 \<le> a \<and> a \<le> 122 \<and> b = 41 \<and> c = 46 | _ \<Rightarrow> False)"

text \<open>
  escapeHtml assigns the text to \<open>textContent\<close> of a fresh element and reads \<open>innerHTML\<close>
  back. The browser serialises a text node by replacing these four characters.
\<close>

definition escape_unit :: "nat \<Rightarrow> jsstring" where
  "escape_unit c =
     (if c = 38 then js ''&amp;''
      else if c = 160 then js ''&nbsp;''
      else if c = 60 then js ''&lt;''
      else if c = 62 then js ''&gt;''
      else [c])"

definition escapeHtml :: "jsstring \<Rightarrow> jsstring" where
  "escapeHtml t = concat (map escape_unit t)"

definition p_title :: jsstring where
  \<open>p_title = js ''<p class="comunicado-paragraph-title">''\<close>

definition p_paragraph :: jsstring where
  \<open>p_paragraph = js ''<p class="comunicado-paragraph">''\<close>

text \<open>The function given to \<open>paragraphs.map\<close>.\<close>

definition format_paragraph :: "jsstring \<Rightarrow> jsstring" where
  "format_paragraph p =
     (let trimmed = trim p in
      if match_title trimmed \<or> match_articulo trimmed
      then p_title @ escapeHtml trimmed @ js ''</p>''
      else if match_list_item trimmed
      then p_paragraph @ escapeHtml trimmed @ js ''</p>''
      else p_paragraph @ escapeHtml trimmed @ js ''</p>'')"

text \<open>The argument is \<open>None\<close> for \<open>null\<close> and \<open>undefined\<close>.\<close>

definition formatComunicadoContent :: "jsstring option \<Rightarrow> jsstring" where
  "formatComunicadoContent content =
     (case content of
        None \<Rightarrow> []
      | Some s \<Rightarrow>
          if s = [] then []
          else concat (map format_paragraph (paragraphs_of s)))"

section \<open>The page estimator\<close>

text \<open>
  estimarPaginasComunicado builds an off-screen element of width 800px with one
  \<open>p\<close> per paragraph and reads its \<open>scrollHeight\<close>. The height is the browser's answer;
  \<open>layout\<close> gives it for the list of paragraph texts. The result is the number written to
  \<open>#comunicado-num-paginas\<close>, and \<open>None\<close> when the text area is blank and the indicator is
  hidden.
\<close>

definition estimarPaginasComunicado :: "(jsstring list \<Rightarrow> nat) \<Rightarrow> jsstring \<Rightarrow> jsnum option" where
  "estimarPaginasComunicado layout v =
     (let contenido = trim v in
      if contenido = [] then None
      else
        (let paragraphs = filter (\<lambda>p. trim p \<noteq> []) (split 10 contenido);
             contentHeight = Num (of_nat (layout (map trim paragraphs)));
             A4_HEIGHT_MM = Num 297;
             wrapperWidth = Num 800;
             wrapperWidthMM = Num 210;
             scaleFactor = js_div wrapperWidthMM wrapperWidth;
             contentHeightMM = js_mul contentHeight scaleFactor;
             headerHeightMM = Num 80;
             footerHeightMM = Num 30;
             marginMM = Num 20;
             usableHeightMM =
               js_sub (js_sub (js_sub A4_HEIGHT_MM headerHeightMM) footerHeightMM) marginMM
         in Some (Math_max (Num 1) (Math_ceil (js_div contentHeightMM usableHeightMM)))))"

section \<open>The content formatter in the words of its description\<close>

text \<open>
  The second reading of the formatter, to compare with the code above. An uppercase letter
  is one of \<open>A\<close> to \<open>Z\<close> or one of the accented capitals U+00C1, U+00C9, U+00CD, U+00D3,
  U+00DA, U+00D1; a space is any white-space unit; a line is blank when it has nothing
  but white space; the text of a line is the line without its outer white space.
\<close>

definition uppercase_letter :: "nat \<Rightarrow> bool" where
  "uppercase_letter c = ((65 \<le> c \<and> c \<le> 90) \<or> c \<in> {193, 201, 205, 211, 218, 209})"

definition blank :: "jsstring \<Rightarrow> bool" where
  "blank l = list_all is_ws l"

text \<open>
  A title is a text entirely of uppercase letters and spaces, or a text that starts with
  \<open>ARTICULO\<close>, written without or with the accent on the I.
\<close>

definition title_text :: "jsstring \<Rightarrow> bool" where
  "title_text t =
     (list_all (\<lambda>c. uppercase_letter c \<or> is_ws c) t
      \<or> prefix (js ''ARTICULO'') t
      \<or> prefix (js ''ART'' @ [205] @ js ''CULO'') t)"

text \<open>One \<open>p\<close> element with the class for its kind and the escaped text of the line.\<close>

definition p_element :: "jsstring \<Rightarrow> jsstring" where
  "p_element l =
     (if title_text (trim l) then p_title else p_paragraph) @ escapeHtml (trim l) @ js ''</p>''"

section \<open>Observations on an export\<close>

text \<open>The pagination plan: the pairs \<open>contentStart\<close>, \<open>contentEnd\<close> of the pages, in order.\<close>

definition plan :: "page list \<Rightarrow> (jsnum \<times> jsnum) list" where
  "plan ps = map (\<lambda>p. (contentStart p, contentEnd p)) ps"

text \<open>The footer raster is among the images of a page.\<close>

definition footer_on :: "page \<Rightarrow> bool" where
  "footer_on pg =
     list_ex (\<lambda>a. case a of AddImage d x y w h \<Rightarrow> d = Raster footerContainer) (images pg)"

text \<open>The parts of the body canvas put on a page, as \<open>sourceY\<close> and \<open>sourceHeight\<close>.\<close>

definition crops :: "page \<Rightarrow> (jsnum \<times> jsnum) list" where
  "crops pg =
     concat (map (\<lambda>a. case a of
                        AddImage (Crop sy sh) x y w h \<Rightarrow> [(sy, sh)]
                      | AddImage (Raster c) x y w h \<Rightarrow> []) (images pg))"

text \<open>The pages of a finished export, and nothing for an error or a run without end.\<close>

definition pages_of :: "(error + export) option \<Rightarrow> page list" where
  "pages_of r = (case r of Some (Inr x) \<Rightarrow> pages x | _ \<Rightarrow> [])"

text \<open>The first \<open>k\<close> iterations of the page loop from page \<open>n\<close> and body position \<open>y\<close>.\<close>

primrec pages_from :: "env \<Rightarrow> nat \<Rightarrow> int \<Rightarrow> jsnum \<Rightarrow> page list" where
  "pages_from e 0 n y = []"
| "pages_from e (Suc k) n y =
     render_page e n y # pages_from e k (n + 1) (contentEnd (render_page e n y))"

section \<open>Sample inputs\<close>

text \<open>
  A rendered document with all five regions on an A4 page of 210mm by 297mm. Every canvas
  is 190 pixels wide, so that a height in pixels is the same number of millimetres; the
  arguments are the heights of the header, body and footer canvases.
\<close>

definition sample_env :: "nat \<Rightarrow> nat \<Rightarrow> nat \<Rightarrow> env" where
  "sample_env hh bh fh =
     \<lparr> jsPDF = True, documentoElement = True, documentoWrapper = True,
       headerElement = Some (HeaderNode (Some (js ''1 de 1''))),
       titleElement = True, infoElement = True, bodyElement = True, footerElement = True,
       pageWidth = 210, pageHeight = 297,
       html2canvas = (\<lambda>c. \<lparr> width = 190,
                                height = (if c = [FooterClone] then fh
                                          else if c = [BodyClone] then bh else hh) \<rparr>) \<rparr>"

definition sample_comunicado :: "jsstring option \<Rightarrow> jsstring option \<Rightarrow> comunicado" where
  "sample_comunicado k t =
     \<lparr> codigo = k, tipo = t, departamento = Some (js ''RRHH''),
       titulo = Some (js ''Aviso''), contenido = Some (js ''Texto'') \<rparr>"

section \<open>The page count and the page loop\<close>

declare digits.simps [simp del]

lemma Math_ceil_cases:
  "Math_max (Num 1) (Math_ceil x) = NaN \<or> Math_max (Num 1) (Math_ceil x) = PosInf
   \<or> (\<exists>N\<ge>1. Math_max (Num 1) (Math_ceil x) = Num (of_int N))"
proof (cases x)
  case (Num r)
  show ?thesis
  proof (cases "1 < \<lceil>r\<rceil>")
    case True
    then have "Math_max (Num 1) (Math_ceil x) = Num (of_int \<lceil>r\<rceil>)"
      using Num by (simp add: Math_max_def)
    with True show ?thesis by force
  next
    case False
    then have "Math_max (Num 1) (Math_ceil x) = Num (of_int 1)"
      using Num by (simp add: Math_max_def)
    then show ?thesis by force
  qed
next
  case NegInf
  then have "Math_max (Num 1) (Math_ceil x) = Num (of_int 1)" by (simp add: Math_max_def)
  then show ?thesis by force
qed (simp_all add: Math_max_def)

lemma totalPages_cases:
  "totalPages e = NaN \<or> totalPages e = PosInf \<or> (\<exists>N\<ge>1. totalPages e = Num (of_int N))"
  unfolding totalPages_def by (rule Math_ceil_cases)

lemma totalPages_finite:
  assumes "bodyHeightMM e = Num h" "contentHeightPerPage e = Num C" "C \<noteq> 0"
  shows "totalPages e = Num (of_int (max 1 \<lceil>h / C\<rceil>))"
proof -
  have m: "max 1 z = (if 1 < z then z else (1::int))" for z by auto
  show ?thesis using assms by (simp add: totalPages_def Math_max_def m)
qed

lemma loop_unroll:
  assumes "totalPages e = Num (of_int N)"
  shows "n \<le> N + 1 \<Longrightarrow> k = nat (N + 1 - n) \<Longrightarrow> pages_loop e n y = Some (pages_from e k n y)"
proof (induction k arbitrary: n y)
  case 0
  then have "n = N + 1" by simp
  then show ?case using assms by (subst pages_loop.simps) simp
next
  case (Suc k)
  then have le: "n \<le> N" by simp
  have "pages_loop e (n + 1) (contentEnd (render_page e n y))
        = Some (pages_from e k (n + 1) (contentEnd (render_page e n y)))"
    using Suc.prems by (intro Suc.IH) simp_all
  then show ?case using assms le by (subst pages_loop.simps) simp
qed

lemma loop_NaN: "totalPages e = NaN \<Longrightarrow> pages_loop e n y = Some []"
  by (subst pages_loop.simps) simp

lemma loop_PosInf_aux:
  assumes "pages_loop e n y = Some ps" shows "totalPages e \<noteq> PosInf"
proof (rule pages_loop.raw_induct[where P = "\<lambda>e n y ps. totalPages e \<noteq> PosInf"])
  show "pages_loop e n y = Some ps" by fact
next
  fix f e n y ps
  assume IH: "\<And>e n y ps. f e n y = Some ps \<Longrightarrow> totalPages e \<noteq> PosInf"
    and eq: "(if js_le (Num (rat_of_int n)) (totalPages e)
      then f e (n + 1) (contentEnd (render_page e n y)) \<bind>
           (\<lambda>rest. Some (render_page e n y # rest))
      else Some []) = Some ps"
  show "totalPages e \<noteq> PosInf"
  proof
    assume inf: "totalPages e = PosInf"
    with eq obtain rest where "f e (n + 1) (contentEnd (render_page e n y)) = Some rest"
      by (auto split: bind_splits)
    from IH[OF this] inf show False by simp
  qed
qed

lemma loop_PosInf: "totalPages e = PosInf \<Longrightarrow> pages_loop e n y = None"
  using loop_PosInf_aux by (cases "pages_loop e n y") auto


lemma sample_measures:
  "usableWidth (sample_env hh bh fh) = Num 190"
  "usableHeight (sample_env hh bh fh) = Num 277"
  "headerHeightMM (sample_env hh bh fh) = Num (of_nat hh)"
  "bodyHeightMM (sample_env hh bh fh) = Num (of_nat bh)"
  "footerHeightMM (sample_env hh bh fh) = Num (of_nat fh)"
  "contentHeightPerPage (sample_env hh bh fh) = Num (267 - of_nat hh - of_nat fh)"
  by (simp_all add: sample_env_def usableWidth_def usableHeight_def margin_def js_sub_def
      headerHeightMM_def bodyHeightMM_def footerHeightMM_def heightMM_def headerContainer_def
      header_children_def bodyContainer_def bodyCanvas_def footerContainer_def
      contentHeightPerPage_def)

lemma render_page_sel [simp]:
  "pageNum (render_page e n y) = n"
  "contentStart (render_page e n y) = y"
  "contentEnd (render_page e n y) = Math_min (js_add y (contentHeightPerPage e)) (bodyHeightMM e)"
  "rasterized (render_page e n y) =
     (if headerElement e \<noteq> None then [headerContainerUpdated e n] else [])"
  by (simp_all add: render_page_def Let_def)

lemma headerContainerUpdated_not_footer:
  "headerElement e \<noteq> None \<Longrightarrow> headerContainerUpdated e n \<noteq> footerContainer"
  by (auto simp: headerContainerUpdated_def header_children_def footerContainer_def)

lemma footer_on_render_page:
  "footer_on (render_page e n y) = (js_eq (Num (of_int n)) (totalPages e) \<and> footerElement e)"
  by (auto simp: footer_on_def render_page_def Let_def headerContainerUpdated_not_footer)

lemma crops_render_page:
  "crops (render_page e n y) \<noteq> [] \<Longrightarrow>
     js_gt (js_sub (contentEnd (render_page e n y)) (contentStart (render_page e n y))) (Num 0)"
  by (auto simp: crops_def render_page_def Let_def split: if_splits)

lemma length_pages_from [simp]: "length (pages_from e k n y) = k"
  by (induction k arbitrary: n y) simp_all

lemma pages_from_nth:
  "i < k \<Longrightarrow> \<exists>y'. pages_from e k n y ! i = render_page e (n + int i) y'"
proof (induction k arbitrary: n y i)
  case 0
  then show ?case by simp
next
  case (Suc k)
  show ?case
  proof (cases i)
    case 0
    then show ?thesis by auto
  next
    case (Suc j)
    with Suc.prems have "j < k" by simp
    from Suc.IH[OF this, of "n + 1" "contentEnd (render_page e n y)"] Suc
    show ?thesis by (auto simp: algebra_simps)
  qed
qed

lemma pages_from_start: "0 < k \<Longrightarrow> contentStart (pages_from e k n y ! 0) = y"
  by (cases k) simp_all

lemma pages_from_contiguous:
  "Suc i < k \<Longrightarrow>
     contentEnd (pages_from e k n y ! i) = contentStart (pages_from e k n y ! Suc i)"
proof (induction k arbitrary: n y i)
  case 0
  then show ?case by simp
next
  case (Suc k)
  show ?case
  proof (cases i)
    case 0
    with Suc.prems have "0 < k" by simp
    then show ?thesis using 0 by (simp add: pages_from_start)
  next
    case (Suc j)
    with Suc.prems have "Suc j < k" by simp
    from Suc.IH[OF this] Suc show ?thesis by simp
  qed
qed

lemma pages_from_end:
  assumes h: "bodyHeightMM e = Num h" and c: "contentHeightPerPage e = Num C" and pos: "0 < C"
  shows "y0 \<le> h \<Longrightarrow> i < k \<Longrightarrow>
     contentEnd (pages_from e k n (Num y0) ! i) = Num (min (y0 + of_nat (Suc i) * C) h)"
proof (induction k arbitrary: n y0 i)
  case 0
  then show ?case by simp
next
  case (Suc k)
  have step: "contentEnd (render_page e n (Num y0)) = Num (min (y0 + C) h)"
    using h c by (simp add: Math_min_def min_def)
  show ?case
  proof (cases i)
    case 0
    then show ?thesis using step by simp
  next
    case (Suc j)
    with Suc.prems have j: "j < k" by simp
    have le: "min (y0 + C) h \<le> h" by simp
    have "contentEnd (pages_from e (Suc k) n (Num y0) ! i)
          = Num (min (min (y0 + C) h + of_nat (Suc j) * C) h)"
      using Suc.IH[OF le j, of "n + 1"] Suc step by simp
    also have "min (min (y0 + C) h + of_nat (Suc j) * C) h = min (y0 + of_nat (Suc i) * C) h"
    proof -
      have "0 \<le> of_nat (Suc j) * C" using pos by simp
      then show ?thesis using Suc by (auto simp: min_def algebra_simps)
    qed
    finally show ?thesis .
  qed
qed

lemma js_toString_int [simp]: "js_toString (Num (of_int N)) = int_toString N"
  by simp

lemma totalPages_ge_1:
  assumes "totalPages e = Num (of_int N)" shows "1 \<le> N"
proof -
  from totalPages_cases[of e] assms obtain M where "1 \<le> M" "Num (rat_of_int N) = Num (of_int M)"
    by auto
  then show ?thesis by simp
qed

lemma loop_finite:
  assumes "totalPages e = Num (of_int N)"
  shows "pages_loop e 1 (Num 0) = Some (pages_from e (nat N) 1 (Num 0))"
  using loop_unroll[OF assms, of 1 "nat N" "Num 0"] totalPages_ge_1[OF assms] by simp

lemma export_finite:
  assumes "jsPDF e" "documentoElement e" "documentoWrapper e" "totalPages e = Num (of_int N)"
  shows "\<exists>r. exportComunicadoPDF e c = Some (Inr r)
           \<and> captured r = [headerContainer e, bodyContainer e]
                           @ (if footerElement e then [footerContainer] else [])
           \<and> pages r = pages_from e (nat N) 1 (Num 0)"
  using assms by (simp add: exportComunicadoPDF_def loop_finite)

lemma pages_of_finite:
  assumes "jsPDF e" "documentoElement e" "documentoWrapper e" "totalPages e = Num (of_int N)"
  shows "pages_of (exportComunicadoPDF e c) = pages_from e (nat N) 1 (Num 0)"
  using export_finite[OF assms, of c] by (auto simp: pages_of_def)

section \<open>Claims about the page count\<close>





section \<open>Claims about the pagination plan\<close>

lemma plan_nth [simp]:
  "i < length ps \<Longrightarrow> plan ps ! i = (contentStart (ps ! i), contentEnd (ps ! i))"
  by (simp add: plan_def)

lemma length_plan [simp]: "length (plan ps) = length ps"
  by (simp add: plan_def)

lemma totalPages_positive_nat:
  assumes "bodyHeightMM e = Num h" "contentHeightPerPage e = Num C" "0 \<le> h" "0 < C"
  shows "h \<le> of_nat (nat (max 1 \<lceil>h / C\<rceil>)) * C"
proof -
  have "h / C \<le> of_int \<lceil>h / C\<rceil>" by (rule le_of_int_ceiling)
  also have "\<dots> \<le> of_int (max 1 \<lceil>h / C\<rceil>)" by simp
  finally have "h / C \<le> of_int (max 1 \<lceil>h / C\<rceil>)" .
  then have "h \<le> of_int (max 1 \<lceil>h / C\<rceil>) * C"
    using assms(4) by (simp add: pos_divide_le_eq)
  moreover have "(of_nat (nat (max 1 \<lceil>h / C\<rceil>)) :: rat) = of_int (max 1 \<lceil>h / C\<rceil>)"
    by simp
  ultimately show ?thesis by simp
qed



lemma sample_checks [simp]:
  "jsPDF (sample_env hh bh fh)" "documentoElement (sample_env hh bh fh)"
  "documentoWrapper (sample_env hh bh fh)" "footerElement (sample_env hh bh fh)"
  "headerElement (sample_env hh bh fh) = Some (HeaderNode (Some (js ''1 de 1'')))"
  "titleElement (sample_env hh bh fh)" "infoElement (sample_env hh bh fh)"
  "bodyElement (sample_env hh bh fh)"
  by (simp_all add: sample_env_def)


lemma sample_totalPages:
  "267 - rat_of_nat hh - rat_of_nat fh \<noteq> 0 \<Longrightarrow>
   totalPages (sample_env hh bh fh)
     = Num (of_int (max 1 \<lceil>rat_of_nat bh / (267 - rat_of_nat hh - rat_of_nat fh)\<rceil>))"
  by (rule totalPages_finite) (simp_all add: sample_measures)


section \<open>Claims about page geometry\<close>

lemma pages_of_render_page:
  assumes "pg \<in> set (pages_of (exportComunicadoPDF e k))"
  shows "\<exists>n y. pg = render_page e n y"
proof -
  consider "totalPages e = NaN" | "totalPages e = PosInf"
    | N where "totalPages e = Num (of_int N)"
    using totalPages_cases[of e] by blast
  then show ?thesis
  proof cases
    case 1
    then have "pages_of (exportComunicadoPDF e k) = []"
      by (simp add: pages_of_def exportComunicadoPDF_def loop_NaN)
    with assms show ?thesis by simp
  next
    case 2
    then have "pages_of (exportComunicadoPDF e k) = []"
      by (simp add: pages_of_def exportComunicadoPDF_def loop_PosInf)
    with assms show ?thesis by simp
  next
    case 3
    have "pages_of (exportComunicadoPDF e k) = [] \<or>
          pages_of (exportComunicadoPDF e k) = pages_from e (nat N) 1 (Num 0)"
      by (simp add: pages_of_def exportComunicadoPDF_def loop_finite[OF 3])
    with assms have "pg \<in> set (pages_from e (nat N) 1 (Num 0))" by auto
    then obtain i where "i < nat N" "pg = pages_from e (nat N) 1 (Num 0) ! i"
      by (auto simp: in_set_conv_nth)
    with pages_from_nth[of i "nat N" e 1 "Num 0"] show ?thesis by auto
  qed
qed

text \<open>
  Claim C3, as amended. The export checks no page geometry. When the content height per
  page is a negative number \<open>C\<close> (and the body height a number \<open>h \<ge> 0\<close>), the export is not
  rejected: after the header, the body and the footer have been rasterized it ends with
  exactly one page, whose plan entry is \<open>(0, C)\<close> and on which no part of the body is put.
  In every export, a page carries a part of the body only if its slice has a height above
  zero.
\<close>

theorem no_geometry_rejection:
  "(jsPDF e \<and> documentoElement e \<and> documentoWrapper e
      \<and> bodyHeightMM e = Num h \<and> 0 \<le> h \<and> contentHeightPerPage e = Num C \<and> C < 0
      \<longrightarrow> (\<exists>r. exportComunicadoPDF e k = Some (Inr r)
             \<and> captured r = [headerContainer e, bodyContainer e]
                              @ (if footerElement e then [footerContainer] else [])
             \<and> plan (pages r) = [(Num 0, Num C)]
             \<and> crops (pages r ! 0) = []))
   \<and> (\<forall>pg \<in> set (pages_of (exportComunicadoPDF e k)).
         crops pg \<noteq> [] \<longrightarrow> js_gt (js_sub (contentEnd pg) (contentStart pg)) (Num 0))"
proof (intro conjI impI ballI)
  assume a: "jsPDF e \<and> documentoElement e \<and> documentoWrapper e
      \<and> bodyHeightMM e = Num h \<and> 0 \<le> h \<and> contentHeightPerPage e = Num C \<and> C < 0"
  then have h: "bodyHeightMM e = Num h" and c: "contentHeightPerPage e = Num C"
    and h0: "0 \<le> h" and neg: "C < 0" by simp_all
  have "h / C \<le> 0" using h0 neg by (simp add: divide_nonneg_neg)
  then have "\<lceil>h / C\<rceil> \<le> 0" by (simp add: ceiling_le_zero)
  then have "max 1 \<lceil>h / C\<rceil> = 1" by simp
  moreover have "totalPages e = Num (of_int (max 1 \<lceil>h / C\<rceil>))"
    using h c neg by (intro totalPages_finite) simp_all
  ultimately have tp: "totalPages e = Num (of_int 1)" by simp
  from a export_finite[OF _ _ _ tp, of k] obtain r
    where r: "exportComunicadoPDF e k = Some (Inr r)"
      and cap: "captured r = [headerContainer e, bodyContainer e]
                              @ (if footerElement e then [footerContainer] else [])"
      and pr: "pages r = pages_from e (nat 1) 1 (Num 0)"
    by blast
  have pr1: "pages r = [render_page e 1 (Num 0)]" using pr by simp
  have e1: "contentEnd (render_page e 1 (Num 0)) = Num C"
    using h c h0 neg by (simp add: Math_min_def)
  have "\<not> js_gt (js_sub (contentEnd (render_page e 1 (Num 0)))
                   (contentStart (render_page e 1 (Num 0)))) (Num 0)"
    using e1 neg by (simp add: js_gt_def js_sub_def)
  then have "crops (render_page e 1 (Num 0)) = []"
    using crops_render_page by blast
  then show "\<exists>r. exportComunicadoPDF e k = Some (Inr r)
             \<and> captured r = [headerContainer e, bodyContainer e]
                              @ (if footerElement e then [footerContainer] else [])
             \<and> plan (pages r) = [(Num 0, Num C)]
             \<and> crops (pages r ! 0) = []"
    using r cap pr1 e1 by (simp add: plan_def)
next
  fix pg
  assume "pg \<in> set (pages_of (exportComunicadoPDF e k))" and ne: "crops pg \<noteq> []"
  then obtain n y where "pg = render_page e n y" using pages_of_render_page by blast
  with ne show "js_gt (js_sub (contentEnd pg) (contentStart pg)) (Num 0)"
    using crops_render_page by blast
qed

lemma sample_containers:
  "headerContainer (sample_env hh bh fh)
     = [HeaderClone (HeaderNode (Some (js ''1 de 1''))), TitleClone, InfoClone]"
  "bodyContainer (sample_env hh bh fh) = [BodyClone]"
  by (simp_all add: headerContainer_def header_children_def bodyContainer_def)

text \<open>
  As stated the claim fails: with a header of 300mm the content height per page is
  \<open>277 - 305 - 27 = -55\<close>, and the export still rasterizes the three regions and ends with
  one page and a file name, not with an error.
\<close>

theorem no_geometry_rejection_counterexample:
  "js_le (contentHeightPerPage (sample_env 300 100 22)) (Num 0)
   \<and> exportComunicadoPDF (sample_env 300 100 22) (sample_comunicado (Some (js ''C-1'')) None)
       = Some (Inr \<lparr> captured =
                      [[HeaderClone (HeaderNode (Some (js ''1 de 1''))), TitleClone, InfoClone],
                       [BodyClone], [FooterClone]],
                    pages = pages_from (sample_env 300 100 22) 1 1 (Num 0),
                    fileName = js ''Comunicado-C-1.pdf'' \<rparr>)
   \<and> plan (pages_from (sample_env 300 100 22) 1 1 (Num 0)) = [(Num 0, Num (- 55))]"
proof -
  let ?e = "sample_env 300 100 22"
  have c: "\<lceil>(100::rat) / (- 55)\<rceil> = - 1" by (simp add: ceiling_unique)
  have "totalPages ?e = Num (of_int (max 1 \<lceil>(100::rat) / (- 55)\<rceil>))"
    using sample_totalPages[of 300 22 100] by simp
  then have tp: "totalPages ?e = Num (of_int 1)" unfolding c by simp
  have "exportComunicadoPDF ?e (sample_comunicado (Some (js ''C-1'')) None)
       = Some (Inr \<lparr> captured =
                      [[HeaderClone (HeaderNode (Some (js ''1 de 1''))), TitleClone, InfoClone],
                       [BodyClone], [FooterClone]],
                    pages = pages_from ?e 1 1 (Num 0),
                    fileName = js ''Comunicado-C-1.pdf'' \<rparr>)"
    using loop_finite[OF tp]
    by (simp add: exportComunicadoPDF_def sample_containers footerContainer_def
        sample_comunicado_def js_def)
  moreover have "plan (pages_from ?e 1 1 (Num 0)) = [(Num 0, Num (- 55))]"
    by (simp add: plan_def sample_measures Math_min_def)
  ultimately show ?thesis by (simp add: sample_measures)
qed


lemma sample_bodyCanvas:
  "bodyCanvas (sample_env hh bh fh) = \<lparr> width = 190, height = bh \<rparr>"
  by (simp add: bodyCanvas_def bodyContainer_def sample_env_def)

theorem no_geometry_rejection_witness:
  "jsPDF (sample_env 300 100 22) \<and> documentoElement (sample_env 300 100 22)
   \<and> documentoWrapper (sample_env 300 100 22)
   \<and> bodyHeightMM (sample_env 300 100 22) = Num 100 \<and> (0::rat) \<le> 100
   \<and> contentHeightPerPage (sample_env 300 100 22) = Num (- 55) \<and> (- 55 :: rat) < 0
   \<and> plan (pages_of (exportComunicadoPDF (sample_env 300 100 22) (sample_comunicado None None)))
       = [(Num 0, Num (- 55))]
   \<and> crops (pages_of (exportComunicadoPDF (sample_env 300 100 22)
                         (sample_comunicado None None)) ! 0) = []
   \<and> crops (pages_of (exportComunicadoPDF (sample_env 45 475 22)
                         (sample_comunicado None None)) ! 0) = [(Num 0, Num 200)]
   \<and> js_gt (js_sub
        (contentEnd (pages_of (exportComunicadoPDF (sample_env 45 475 22)
                                 (sample_comunicado None None)) ! 0))
        (contentStart (pages_of (exportComunicadoPDF (sample_env 45 475 22)
                                   (sample_comunicado None None)) ! 0))) (Num 0)"
proof -
  let ?e = "sample_env 300 100 22" and ?f = "sample_env 45 475 22"
  let ?k = "sample_comunicado None None"
  have a: "bodyHeightMM ?e = Num 100" and b: "contentHeightPerPage ?e = Num (- 55)"
    by (simp_all add: sample_measures)
  from no_geometry_rejection[of ?e 100 "- 55" ?k] a b
  obtain r where "exportComunicadoPDF ?e ?k = Some (Inr r)"
    "plan (pages r) = [(Num 0, Num (- 55))]" "crops (pages r ! 0) = []"
    by auto
  then have 1: "plan (pages_of (exportComunicadoPDF ?e ?k)) = [(Num 0, Num (- 55))]"
    and 2: "crops (pages_of (exportComunicadoPDF ?e ?k) ! 0) = []"
    by (simp_all add: pages_of_def)
  have c: "\<lceil>(475::rat) / 200\<rceil> = 3" by (simp add: ceiling_unique)
  have "totalPages ?f = Num (of_int (max 1 \<lceil>(475::rat) / 200\<rceil>))"
    using sample_totalPages[of 45 22 475] by simp
  then have tp: "totalPages ?f = Num (of_int 3)" unfolding c by simp
  have pf: "pages_of (exportComunicadoPDF ?f ?k) = pages_from ?f (nat 3) 1 (Num 0)"
    by (rule pages_of_finite[OF _ _ _ tp]) simp_all
  have n3: "nat 3 = Suc (Suc (Suc 0))" by simp
  have p0: "pages_of (exportComunicadoPDF ?f ?k) ! 0 = render_page ?f 1 (Num 0)"
    unfolding pf n3 by simp
  have 3: "crops (render_page ?f 1 (Num 0)) = [(Num 0, Num 200)]"
    by (simp add: crops_def render_page_def Let_def sample_measures sample_bodyCanvas
        Math_min_def js_sub_def js_gt_def)
  have "render_page ?f 1 (Num 0) \<in> set (pages_of (exportComunicadoPDF ?f ?k))"
    unfolding pf n3 by simp
  with no_geometry_rejection[of ?f 0 0 ?k] 3
  have 4: "js_gt (js_sub (contentEnd (render_page ?f 1 (Num 0)))
                        (contentStart (render_page ?f 1 (Num 0)))) (Num 0)"
    by auto
  from a b 1 2 3 4 show ?thesis unfolding p0 by simp
qed

section \<open>Claims about the footer and the header\<close>

text \<open>
  Claim C4, as amended. In every export whose page count is a number \<open>N\<close>, the loop makes
  the pages 1 to \<open>N\<close>; when the document has a footer element, the footer raster is put on
  the last page (\<open>pageNum = totalPages\<close>) and on no other page, whole and never cropped; when
  the document has no footer element, no page carries a footer.
\<close>

theorem footer_on_last_page_only:
  assumes "jsPDF e" and "documentoElement e" and "documentoWrapper e"
    and tp: "totalPages e = Num (of_int N)"
  shows "\<exists>r. exportComunicadoPDF e k = Some (Inr r)
           \<and> int (length (pages r)) = N
           \<and> (\<forall>i. i < length (pages r) \<longrightarrow>
                  pageNum (pages r ! i) = int i + 1
                  \<and> footer_on (pages r ! i) = (footerElement e \<and> int i + 1 = N))"
proof -
  from export_finite[OF assms, of k] obtain r
    where r: "exportComunicadoPDF e k = Some (Inr r)"
      and pr: "pages r = pages_from e (nat N) 1 (Num 0)"
    by blast
  have N1: "1 \<le> N" using tp by (rule totalPages_ge_1)
  have len: "int (length (pages r)) = N" using pr N1 by simp
  have each: "pageNum (pages r ! i) = int i + 1
              \<and> footer_on (pages r ! i) = (footerElement e \<and> int i + 1 = N)"
    if "i < length (pages r)" for i
  proof -
    from that pr have "i < nat N" by simp
    from pages_from_nth[OF this, of e 1 "Num 0"] pr
    obtain y where "pages r ! i = render_page e (1 + int i) y" by auto
    then show ?thesis using tp by (auto simp: footer_on_render_page js_eq_def)
  qed
  from r len each show ?thesis by blast
qed

lemma sample_totalPages_3: "totalPages (sample_env 45 475 22) = Num (of_int 3)"
proof -
  have c: "\<lceil>(475::rat) / 200\<rceil> = 3" by (simp add: ceiling_unique)
  have "totalPages (sample_env 45 475 22) = Num (of_int (max 1 \<lceil>(475::rat) / 200\<rceil>))"
    using sample_totalPages[of 45 22 475] by simp
  then show ?thesis unfolding c by simp
qed

theorem footer_on_last_page_only_witness:
  "jsPDF (sample_env 45 475 22) \<and> documentoElement (sample_env 45 475 22)
   \<and> documentoWrapper (sample_env 45 475 22)
   \<and> totalPages (sample_env 45 475 22) = Num (of_int 3)
   \<and> map footer_on (pages_of (exportComunicadoPDF (sample_env 45 475 22)
                                 (sample_comunicado None None)))
       = [False, False, True]"
proof -
  let ?e = "sample_env 45 475 22" and ?k = "sample_comunicado None None"
  from footer_on_last_page_only[of ?e 3 ?k, OF _ _ _ sample_totalPages_3]
  obtain r where r: "exportComunicadoPDF ?e ?k = Some (Inr r)"
    and len: "int (length (pages r)) = 3"
    and each: "\<And>i. i < length (pages r) \<Longrightarrow>
                 footer_on (pages r ! i) = (footerElement ?e \<and> int i + 1 = 3)"
    by auto
  from len have l3: "length (pages r) = 3" by simp
  then obtain a b c where abc: "pages r = [a, b, c]"
    by (auto simp: numeral_3_eq_3 length_Suc_conv)
  from each[of 0] each[of 1] each[of 2] abc
  have "map footer_on (pages r) = [False, False, True]" by simp
  with r show ?thesis using sample_totalPages_3 by (simp add: pages_of_def)
qed

text \<open>
  As stated the claim fails for a document without a footer element: the same document
  without its footer is exported on three pages, and none of them carries a footer.
\<close>

theorem footer_on_last_page_only_counterexample:
  "map footer_on
     (pages_of (exportComunicadoPDF ((sample_env 45 475 22) \<lparr> footerElement := False \<rparr>)
                  (sample_comunicado None None)))
   = [False, False, False]"
proof -
  let ?e = "(sample_env 45 475 22) \<lparr> footerElement := False \<rparr>"
  have m: "bodyHeightMM ?e = Num 475" "contentHeightPerPage ?e = Num 222"
    by (simp_all add: sample_env_def usableWidth_def usableHeight_def margin_def js_sub_def
      headerHeightMM_def bodyHeightMM_def footerHeightMM_def heightMM_def headerContainer_def
      header_children_def bodyContainer_def bodyCanvas_def footerContainer_def
      contentHeightPerPage_def)
  have c: "\<lceil>(475::rat) / 222\<rceil> = 3" by (simp add: ceiling_unique)
  have "totalPages ?e = Num (of_int (max 1 \<lceil>(475::rat) / 222\<rceil>))"
    by (rule totalPages_finite[OF m]) simp
  then have tp: "totalPages ?e = Num (of_int 3)" unfolding c by simp
  have pf: "pages_of (exportComunicadoPDF ?e (sample_comunicado None None))
            = pages_from ?e (nat 3) 1 (Num 0)"
    by (rule pages_of_finite[OF _ _ _ tp]) (simp_all add: sample_env_def)
  have n3: "nat 3 = Suc (Suc (Suc 0))" by simp
  show ?thesis unfolding pf n3 by (simp add: footer_on_render_page sample_env_def)
qed


lemma headerContainerUpdated_counter:
  assumes "headerElement e = Some (HeaderNode (Some t0))" and "totalPages e = Num (of_int N)"
  shows "headerContainerUpdated e n
         = header_children e
             (Some (HeaderNode (Some (int_toString n @ js '' de '' @ int_toString N))))"
  using assms by (simp add: headerContainerUpdated_def headerClone_def pagina_text_def)

lemma images_render_page_header:
  assumes "headerElement e \<noteq> None"
  shows "hd (images (render_page e n y))
         = AddImage (Raster (headerContainerUpdated e n)) margin margin
             (usableWidth e) (headerHeightMM e)"
  using assms by (simp add: render_page_def Let_def)

text \<open>
  Claim C5, as amended. When the document has a header element with the page counter field
  and the page count is a number \<open>N\<close>, then for every page \<open>p\<close> from 1 to \<open>N\<close> the loop builds
  a fresh header container whose counter reads \<open>p de N\<close> (the text is Spanish: "de", not
  "of"), hands it to html2canvas as the only rasterization of that iteration, and puts the
  whole raster at the top of the page. The body and the footer are rasterized once, before
  the loop.
\<close>

theorem header_regenerated_per_page:
  assumes "jsPDF e" and "documentoElement e" and "documentoWrapper e"
    and hd: "headerElement e = Some (HeaderNode (Some t0))"
    and tp: "totalPages e = Num (of_int N)"
  shows "\<exists>r. exportComunicadoPDF e k = Some (Inr r)
           \<and> int (length (pages r)) = N
           \<and> captured r = [headerContainer e, bodyContainer e]
                            @ (if footerElement e then [footerContainer] else [])
           \<and> (\<forall>i. i < length (pages r) \<longrightarrow>
                  rasterized (pages r ! i)
                    = [header_children e (Some (HeaderNode (Some
                         (int_toString (int i + 1) @ js '' de '' @ int_toString N))))]
                  \<and> hd (images (pages r ! i))
                    = AddImage (Raster (header_children e (Some (HeaderNode (Some
                         (int_toString (int i + 1) @ js '' de '' @ int_toString N))))))
                        margin margin (usableWidth e) (headerHeightMM e))"
proof -
  from export_finite[OF assms(1-3) tp, of k] obtain r
    where r: "exportComunicadoPDF e k = Some (Inr r)"
      and cap: "captured r = [headerContainer e, bodyContainer e]
                            @ (if footerElement e then [footerContainer] else [])"
      and pr: "pages r = pages_from e (nat N) 1 (Num 0)"
    by blast
  have N1: "1 \<le> N" using tp by (rule totalPages_ge_1)
  have len: "int (length (pages r)) = N" using pr N1 by simp
  have ne: "headerElement e \<noteq> None" using hd by simp
  have each: "rasterized (pages r ! i)
                = [header_children e (Some (HeaderNode (Some
                     (int_toString (int i + 1) @ js '' de '' @ int_toString N))))]
              \<and> hd (images (pages r ! i))
                = AddImage (Raster (header_children e (Some (HeaderNode (Some
                     (int_toString (int i + 1) @ js '' de '' @ int_toString N))))))
                    margin margin (usableWidth e) (headerHeightMM e)"
    if "i < length (pages r)" for i
  proof -
    from that pr have "i < nat N" by simp
    from pages_from_nth[OF this, of e 1 "Num 0"] pr
    obtain y where p: "pages r ! i = render_page e (int i + 1) y"
      by (auto simp: add.commute)
    show ?thesis
      using ne headerContainerUpdated_counter[OF hd tp, of "int i + 1"]
        images_render_page_header[OF ne, of "int i + 1" y]
      unfolding p by simp
  qed
  from r len cap each show ?thesis by blast
qed

lemma int_toString_small:
  "int_toString 1 = js ''1''" "int_toString 2 = js ''2''" "int_toString 3 = js ''3''"
  by (simp_all add: int_toString_def digits.simps js_def)

theorem header_regenerated_per_page_witness:
  "jsPDF (sample_env 45 475 22) \<and> documentoElement (sample_env 45 475 22)
   \<and> documentoWrapper (sample_env 45 475 22)
   \<and> headerElement (sample_env 45 475 22) = Some (HeaderNode (Some (js ''1 de 1'')))
   \<and> totalPages (sample_env 45 475 22) = Num (of_int 3)
   \<and> map rasterized (pages_of (exportComunicadoPDF (sample_env 45 475 22)
                                  (sample_comunicado None None)))
       = [[[HeaderClone (HeaderNode (Some (js ''1 de 3''))), TitleClone, InfoClone]],
          [[HeaderClone (HeaderNode (Some (js ''2 de 3''))), TitleClone, InfoClone]],
          [[HeaderClone (HeaderNode (Some (js ''3 de 3''))), TitleClone, InfoClone]]]"
proof -
  let ?e = "sample_env 45 475 22" and ?k = "sample_comunicado None None"
  have h: "headerElement ?e = Some (HeaderNode (Some (js ''1 de 1'')))" by simp
  from header_regenerated_per_page[of ?e "js ''1 de 1''" 3 ?k, OF _ _ _ h sample_totalPages_3]
  obtain r where r: "exportComunicadoPDF ?e ?k = Some (Inr r)"
    and len: "int (length (pages r)) = 3"
    and each: "\<And>i. i < length (pages r) \<Longrightarrow>
                 rasterized (pages r ! i)
                 = [header_children ?e (Some (HeaderNode (Some
                      (int_toString (int i + 1) @ js '' de '' @ int_toString 3))))]"
    by auto
  from len have l3: "length (pages r) = 3" by simp
  then obtain a b c where abc: "pages r = [a, b, c]"
    by (auto simp: numeral_3_eq_3 length_Suc_conv)
  from each[of 0] each[of 1] each[of 2] abc
  have "map rasterized (pages r)
       = [[[HeaderClone (HeaderNode (Some (js ''1 de 3''))), TitleClone, InfoClone]],
          [[HeaderClone (HeaderNode (Some (js ''2 de 3''))), TitleClone, InfoClone]],
          [[HeaderClone (HeaderNode (Some (js ''3 de 3''))), TitleClone, InfoClone]]]"
    by (simp add: header_children_def int_toString_small js_def)
  with r show ?thesis using sample_totalPages_3 by (simp add: pages_of_def)
qed

text \<open>
  As stated the claim fails in two ways. The counter of page 1 of a three-page document
  reads \<open>1 de 3\<close>, which is not the text \<open>1 of 3\<close>; and for a document without a header
  element the loop rasterizes no header at all.
\<close>

theorem header_regenerated_per_page_counterexample:
  "rasterized (pages_of (exportComunicadoPDF (sample_env 45 475 22)
                           (sample_comunicado None None)) ! 0)
     = [[HeaderClone (HeaderNode (Some (js ''1 de 3''))), TitleClone, InfoClone]]
   \<and> js ''1 de 3'' \<noteq> js ''1 of 3''
   \<and> map rasterized
        (pages_of (exportComunicadoPDF ((sample_env 45 475 22) \<lparr> headerElement := None \<rparr>)
                     (sample_comunicado None None)))
       = [[], [], []]"
proof -
  let ?e = "sample_env 45 475 22" and ?k = "sample_comunicado None None"
  let ?f = "(sample_env 45 475 22) \<lparr> headerElement := None \<rparr>"
  have n3: "nat 3 = Suc (Suc (Suc 0))" by simp
  have pe: "pages_of (exportComunicadoPDF ?e ?k) = pages_from ?e (nat 3) 1 (Num 0)"
    by (rule pages_of_finite[OF _ _ _ sample_totalPages_3]) simp_all
  have h: "headerElement ?e = Some (HeaderNode (Some (js ''1 de 1'')))" by simp
  have 1: "rasterized (pages_of (exportComunicadoPDF ?e ?k) ! 0)
     = [[HeaderClone (HeaderNode (Some (js ''1 de 3''))), TitleClone, InfoClone]]"
    unfolding pe n3
    by (simp add: headerContainerUpdated_counter[OF h sample_totalPages_3]
        header_children_def int_toString_small js_def)
  have 2: "js ''1 de 3'' \<noteq> js ''1 of 3''" by (simp add: js_def)
  have m: "bodyHeightMM ?f = Num 475" "contentHeightPerPage ?f = Num 200"
    by (simp_all add: sample_env_def usableWidth_def usableHeight_def margin_def js_sub_def
      headerHeightMM_def bodyHeightMM_def footerHeightMM_def heightMM_def headerContainer_def
      header_children_def bodyContainer_def bodyCanvas_def footerContainer_def
      contentHeightPerPage_def)
  have c: "\<lceil>(475::rat) / 200\<rceil> = 3" by (simp add: ceiling_unique)
  have "totalPages ?f = Num (of_int (max 1 \<lceil>(475::rat) / 200\<rceil>))"
    by (rule totalPages_finite[OF m]) simp
  then have tp: "totalPages ?f = Num (of_int 3)" unfolding c by simp
  have pf: "pages_of (exportComunicadoPDF ?f ?k) = pages_from ?f (nat 3) 1 (Num 0)"
    by (rule pages_of_finite[OF _ _ _ tp]) (simp_all add: sample_env_def)
  have 3: "map rasterized (pages_of (exportComunicadoPDF ?f ?k)) = [[], [], []]"
    unfolding pf n3 by (simp add: sample_env_def)
  from 1 2 3 show ?thesis by simp
qed

section \<open>Claims about the batch exporter\<close>

lemma export_items_ok:
  "list_all (\<lambda>c. \<not> isl (export_item throws c)) cs \<Longrightarrow>
   export_items throws acc cs
     = (acc @ map (\<lambda>c. projr (export_item throws c)) cs, None)"
proof (induction cs arbitrary: acc)
  case Nil
  then show ?case by simp
next
  case (Cons c cs)
  then obtain f where f: "export_item throws c = Inr f"
    by (cases "export_item throws c") auto
  with Cons show ?case by simp
qed

lemma export_items_failure:
  "list_all (\<lambda>c. \<not> isl (export_item throws c)) pre \<Longrightarrow>
   export_item throws c = Inl err \<Longrightarrow>
   export_items throws acc (pre @ c # post)
     = (acc @ map (\<lambda>c. projr (export_item throws c)) pre, Some err)"
proof (induction pre arbitrary: acc)
  case Nil
  then show ?case by simp
next
  case (Cons p pre)
  then obtain f where f: "export_item throws p = Inr f"
    by (cases "export_item throws p") auto
  with Cons show ?case by simp
qed

text \<open>
  Claim C6, as amended. The batch exporter exports its records strictly in order and has no
  handler around an item: when the items before a record have been exported and the export
  of that record fails, the files saved are exactly those of the items before it, no later
  item is exported, the error leaves both the export system and the application method, and
  no notification is shown.
\<close>

theorem batch_stops_at_first_failure:
  assumes "list_all (\<lambda>x. \<not> isl (export_item throws x)) pre"
    and "export_item throws c = Inl err"
  shows "exportComunicadosPDF True throws (pre @ c # post)
           = (map (\<lambda>x. projr (export_item throws x)) pre, Some err)
         \<and> App_exportComunicadosPDF True throws (pre @ c # post)
           = \<lparr> saved = map (\<lambda>x. projr (export_item throws x)) pre,
               notifications = [], thrown = Some err \<rparr>"
  using export_items_failure[OF assms, of "[]" post]
  by (simp add: exportComunicadosPDF_def App_exportComunicadosPDF_def)

lemma export_item_sample:
  "export_item (\<lambda>c. False) (sample_comunicado (Some k) (Some t))
     = Inr (js ''Comunicado-'' @ k @ js ''.pdf'')"
  "export_item (\<lambda>c. False) (sample_comunicado (Some k) None) = Inl TypeError"
  by (simp_all add: export_item_def sample_comunicado_def template_value_def)

theorem batch_stops_at_first_failure_witness:
  "list_all (\<lambda>x. \<not> isl (export_item (\<lambda>c. False) x))
     [sample_comunicado (Some (js ''A'')) (Some (js ''interno''))]
   \<and> export_item (\<lambda>c. False) (sample_comunicado (Some (js ''B'')) None) = Inl TypeError
   \<and> exportComunicadosPDF True (\<lambda>c. False)
        ([sample_comunicado (Some (js ''A'')) (Some (js ''interno''))]
         @ sample_comunicado (Some (js ''B'')) None
         # [sample_comunicado (Some (js ''C'')) (Some (js ''externo''))])
       = ([js ''Comunicado-A.pdf''], Some TypeError)"
proof -
  have a: "list_all (\<lambda>x. \<not> isl (export_item (\<lambda>c. False) x))
     [sample_comunicado (Some (js ''A'')) (Some (js ''interno''))]"
    by (simp add: export_item_sample)
  have b: "export_item (\<lambda>c. False) (sample_comunicado (Some (js ''B'')) None) = Inl TypeError"
    by (simp add: export_item_sample)
  from batch_stops_at_first_failure[OF a b,
      of "[sample_comunicado (Some (js ''C'')) (Some (js ''externo''))]"] a b
  show ?thesis by (simp add: export_item_sample js_def)
qed

text \<open>
  As stated the claim fails. In a batch of three records whose second record has no
  \<open>tipo\<close>, the call \<open>comunicado.tipo.toUpperCase()\<close> throws on the second record: only the
  file of the first record is saved, the third record is never exported although its own
  export would succeed, and nothing is reported.
\<close>

theorem batch_stops_at_first_failure_counterexample:
  "App_exportComunicadosPDF True (\<lambda>c. False)
     [sample_comunicado (Some (js ''A'')) (Some (js ''interno'')),
      sample_comunicado (Some (js ''B'')) None,
      sample_comunicado (Some (js ''C'')) (Some (js ''externo''))]
   = \<lparr> saved = [js ''Comunicado-A.pdf''], notifications = [], thrown = Some TypeError \<rparr>
   \<and> export_item (\<lambda>c. False) (sample_comunicado (Some (js ''C'')) (Some (js ''externo'')))
       = Inr (js ''Comunicado-C.pdf'')"
  by (simp add: App_exportComunicadosPDF_def exportComunicadosPDF_def export_item_sample js_def)

section \<open>Claims about the layout measurer\<close>

lemma wrapperWidth_pos: "0 < wrapperWidth w"
  by (simp add: wrapperWidth_def js_or_def)

lemma Math_max_ceil_ge_1:
  "0 \<le> r \<Longrightarrow> \<exists>n. 1 \<le> n \<and> Math_max (Num 1) (Math_ceil (Num r)) = Num (of_int n)"
  using Math_ceil_cases[of "Num r"] by (auto simp: Math_max_def)

text \<open>
  Claim C8. In calcularPaginasComunicado the pixel width is \<open>offsetWidth\<close>, or
  \<open>scrollWidth\<close> when that is zero, or 800 when both are zero; it is never zero, the scale
  factor is the number \<open>210 / pixelWidth\<close>, and for every wrapper the page count is a whole
  number of at least 1.
\<close>

theorem measurer_never_divides_by_zero:
  "wrapperWidth w
     = (if offsetWidth w \<noteq> 0 then offsetWidth w
        else if scrollWidth w \<noteq> 0 then scrollWidth w else 800)
   \<and> 0 < wrapperWidth w
   \<and> scaleFactor w = Num (210 / of_nat (wrapperWidth w))
   \<and> (\<exists>n. 1 \<le> n \<and> calcularPaginasComunicado (Some w) = Some (Num (of_int n)))"
proof -
  have pos: "0 < wrapperWidth w" by (rule wrapperWidth_pos)
  then have sf: "scaleFactor w = Num (210 / of_nat (wrapperWidth w))"
    by (simp add: scaleFactor_def)
  have "0 \<le> rat_of_nat (scrollHeight w) * (210 / of_nat (wrapperWidth w)) / 277"
    by simp
  from Math_max_ceil_ge_1[OF this]
  have "\<exists>n. 1 \<le> n \<and> calcularPaginasComunicado (Some w) = Some (Num (of_int n))"
    by (simp add: calcularPaginasComunicado_def Let_def sf js_sub_def)
  with pos sf show ?thesis by (simp add: wrapperWidth_def js_or_def)
qed

theorem measurer_never_divides_by_zero_witness:
  "wrapperWidth \<lparr> offsetWidth = 0, scrollWidth = 0, scrollHeight = 3000 \<rparr> = 800
   \<and> scaleFactor \<lparr> offsetWidth = 0, scrollWidth = 0, scrollHeight = 3000 \<rparr> = Num (21 / 80)
   \<and> calcularPaginasComunicado (Some \<lparr> offsetWidth = 0, scrollWidth = 0, scrollHeight = 3000 \<rparr>)
       = Some (Num 3)"
proof -
  let ?w = "\<lparr> offsetWidth = 0, scrollWidth = 0, scrollHeight = 3000 \<rparr>"
  have c: "\<lceil>(3000::rat) * (21 / 80) / 277\<rceil> = 3" by (simp add: ceiling_unique)
  have w: "wrapperWidth ?w = 800" using measurer_never_divides_by_zero[of ?w] by simp
  have s: "scaleFactor ?w = Num (21 / 80)"
    using measurer_never_divides_by_zero[of ?w] w by simp
  have "calcularPaginasComunicado (Some ?w) = Some (Num 3)"
    using c by (simp add: calcularPaginasComunicado_def Let_def s js_sub_def Math_max_def)
  with w s show ?thesis by simp
qed

section \<open>Claims about the content formatter\<close>

lemma trim_empty_iff: "(trim l = []) = blank l"
proof -
  have "(trim l = []) = (\<forall>x \<in> set (dropWhile is_ws l). is_ws x)"
    by (simp add: trim_def)
  also have "\<dots> = (dropWhile is_ws l = [])"
  proof
    assume all: "\<forall>x \<in> set (dropWhile is_ws l). is_ws x"
    show "dropWhile is_ws l = []"
    proof (rule ccontr)
      assume ne: "dropWhile is_ws l \<noteq> []"
      then have "\<not> is_ws (hd (dropWhile is_ws l))" by (rule hd_dropWhile)
      moreover have "hd (dropWhile is_ws l) \<in> set (dropWhile is_ws l)"
        using ne by (rule hd_in_set)
      ultimately show False using all by blast
    qed
  next
    assume "dropWhile is_ws l = []"
    then show "\<forall>x \<in> set (dropWhile is_ws l). is_ws x"
      by (simp del: dropWhile_eq_Nil_conv)
  qed
  also have "\<dots> = blank l" by (simp add: blank_def list_all_iff)
  finally show ?thesis .
qed

lemma paragraphs_of_blank: "paragraphs_of s = filter (\<lambda>l. \<not> blank l) (split 10 s)"
  by (simp add: paragraphs_of_def trim_empty_iff)

lemma title_class_spec: "title_class = (\<lambda>c. uppercase_letter c \<or> is_ws c)"
  by (rule ext) (simp add: title_class_def uppercase_letter_def)

lemma title_text_code:
  "t \<noteq> [] \<Longrightarrow> (match_title t \<or> match_articulo t) = title_text t"
  by (simp add: match_title_def match_articulo_def title_text_def title_class_spec)

lemma format_paragraph_p_element:
  "\<not> blank l \<Longrightarrow> format_paragraph l = p_element l"
  using title_text_code[of "trim l"]
  by (simp add: format_paragraph_def p_element_def Let_def trim_empty_iff)

lemma escape_unit_no_angle: "60 \<notin> set (escape_unit c) \<and> 62 \<notin> set (escape_unit c)"
  by (simp add: escape_unit_def js_def)

lemma escapeHtml_no_angle: "60 \<notin> set (escapeHtml t) \<and> 62 \<notin> set (escapeHtml t)"
  using escape_unit_no_angle by (auto simp: escapeHtml_def)

lemma count_p_element:
  "count_list (p_element l) 60 = 2 \<and> count_list (p_element l) 62 = 2"
  using escapeHtml_no_angle[of "trim l"]
  by (simp add: p_element_def p_title_def p_paragraph_def js_def)

lemma count_concat_p:
  "count_list (concat (map p_element ls)) 60 = 2 * length ls
   \<and> count_list (concat (map p_element ls)) 62 = 2 * length ls"
  by (induction ls) (simp_all add: count_p_element)




section \<open>The arithmetic of the page estimator\<close>

text \<open>
  The arithmetic of estimarPaginasComunicado: for a text that is not blank the estimate is
  \<open>max(1, ceil(H * (210 / 800) / 167))\<close> for the measured height \<open>H\<close>, and it does not
  decrease when the measured height grows. How the height depends on the text is decided
  by the browser's layout and is not part of the program.
\<close>

lemma estimarPaginasComunicado_formula:
  assumes "trim v \<noteq> []"
  shows "estimarPaginasComunicado layout v
         = Some (Num (of_int (max 1
             \<lceil>rat_of_nat (layout (map trim (paragraphs_of (trim v)))) * (210 / 800) / 167\<rceil>)))"
proof -
  have m: "max 1 z = (if 1 < z then z else (1::int))" for z by auto
  show ?thesis
    using assms
    by (simp add: estimarPaginasComunicado_def Let_def paragraphs_of_def js_sub_def
        Math_max_def m)
qed

lemma estimarPaginasComunicado_mono_height:
  assumes "trim v \<noteq> []" and "trim v' \<noteq> []"
    and "layout (map trim (paragraphs_of (trim v))) \<le> layout (map trim (paragraphs_of (trim v')))"
  shows "\<exists>n n'. estimarPaginasComunicado layout v = Some (Num (of_int n))
           \<and> estimarPaginasComunicado layout v' = Some (Num (of_int n'))
           \<and> 1 \<le> n \<and> n \<le> n'"
proof -
  let ?H = "rat_of_nat (layout (map trim (paragraphs_of (trim v))))"
  let ?H' = "rat_of_nat (layout (map trim (paragraphs_of (trim v'))))"
  have "?H * (210 / 800) / 167 \<le> ?H' * (210 / 800) / 167"
    using assms(3) by (simp add: divide_right_mono mult_right_mono)
  then have "\<lceil>?H * (210 / 800) / 167\<rceil> \<le> \<lceil>?H' * (210 / 800) / 167\<rceil>"
    by (rule ceiling_mono)
  then have "max 1 \<lceil>?H * (210 / 800) / 167\<rceil> \<le> max 1 \<lceil>?H' * (210 / 800) / 167\<rceil>"
    by simp
  moreover have "1 \<le> max 1 \<lceil>?H * (210 / 800) / 167\<rceil>" by simp
  ultimately show ?thesis
    using estimarPaginasComunicado_formula[OF assms(1), of layout]
      estimarPaginasComunicado_formula[OF assms(2), of layout]
    by blast
qed

end
